theory Spec2Isabelle
  imports Main "HOL-Library.Word"
begin

unbundle bit_operations_syntax

section \<open>Data model\<close>

text \<open>
  The package \<open>term\<close> of goterm. \<open>termios_linux.go\<close> holds the system-call side
  (\<open>Attr\<close>, \<open>Set\<close>, \<open>GetPass\<close>, \<open>OpenPTY\<close>, \<open>PTY.Close\<close>, \<open>PTSName\<close>,
  \<open>PTSNumber\<close>); the tests \<open>testraw\<close>, \<open>testcook\<close> and \<open>TestSSH\<close> call
  \<open>Raw\<close>, \<open>Cook\<close>, \<open>ToSSH\<close> and \<open>FromSSH\<close>.

  Go's \<open>uint32\<close> is \<open>32 word\<close>, \<open>byte\<close> is \<open>8 word\<close>, \<open>uint\<close> on a 64-bit
  target is \<open>64 word\<close>.

  Modelled from the spec: the types \<open>Winsize\<close>, \<open>Termios\<close> and \<open>PTY\<close>, which are
  declared in a file that is not among the sources.  The fields are those of spec
  section 3 and those the sources use.  The array \<open>Cc\<close> is a list of \<open>NCCS\<close> bytes;
  every operation below keeps its length.
\<close>

type_synonym u8 = "8 word"

type_synonym u16 = "16 word"

type_synonym u32 = "32 word"

type_synonym u64 = "64 word"

record Winsize =
  WsRow :: u16
  WsCol :: u16
  WsXpixel :: u16
  WsYpixel :: u16

record Termios =
  Iflag :: u32
  Oflag :: u32
  Cflag :: u32
  Lflag :: u32
  Cc :: "u8 list"
  Ispeed :: u32
  Ospeed :: u32
  Wz :: Winsize

section \<open>Constants\<close>

text \<open>The constants of \<open>termios_linux.go\<close> (Go writes octal with a leading zero).\<close>

definition TCGETS :: nat where "TCGETS = 0x5401"

definition TCSETS :: nat where "TCSETS = 0x5402"

definition TIOCGPTN :: nat where "TIOCGPTN = 0x80045430"

definition TIOCSPTLCK :: nat where "TIOCSPTLCK = 0x40045431"

definition CBAUD :: u32 where "CBAUD = 4111"

definition CBAUDEX :: u32 where "CBAUDEX = 4096"

text \<open>
  Modelled from the spec: the flag constants and control-character indices.  The file
  that declares them is not among the sources; the spec says they follow POSIX termios
  and the sources are the Linux ones, so the values are those of Linux.
\<close>

definition IGNBRK :: u32 where "IGNBRK = 0x1"

definition BRKINT :: u32 where "BRKINT = 0x2"

definition IGNPAR :: u32 where "IGNPAR = 0x4"

definition PARMRK :: u32 where "PARMRK = 0x8"

definition ISTRIP :: u32 where "ISTRIP = 0x20"

definition INLCR :: u32 where "INLCR = 0x40"

definition IGNCR :: u32 where "IGNCR = 0x80"

definition ICRNL :: u32 where "ICRNL = 0x100"

definition IXON :: u32 where "IXON = 0x400"

definition IXOFF :: u32 where "IXOFF = 0x1000"

definition OPOST :: u32 where "OPOST = 0x1"

definition CSIZE :: u32 where "CSIZE = 0x30"

definition CS6 :: u32 where "CS6 = 0x10"

definition CS7 :: u32 where "CS7 = 0x20"

definition CS8 :: u32 where "CS8 = 0x30"

definition PARENB :: u32 where "PARENB = 0x100"

definition PARODD :: u32 where "PARODD = 0x200"

definition ISIG :: u32 where "ISIG = 0x1"

definition ICANON :: u32 where "ICANON = 0x2"

definition ECHO :: u32 where "ECHO = 8"

definition ECHOE :: u32 where "ECHOE = 0x10"

definition ECHOK :: u32 where "ECHOK = 0x20"

definition ECHONL :: u32 where "ECHONL = 0x40"

definition IEXTEN :: u32 where "IEXTEN = 0x8000"

definition VINTR :: nat where "VINTR = 0"

definition VQUIT :: nat where "VQUIT = 1"

definition VERASE :: nat where "VERASE = 2"

definition VKILL :: nat where "VKILL = 3"

definition VEOF :: nat where "VEOF = 4"

definition VTIME :: nat where "VTIME = 5"

definition VMIN :: nat where "VMIN = 6"

definition VSTART :: nat where "VSTART = 8"

definition VSTOP :: nat where "VSTOP = 9"

definition VSUSP :: nat where "VSUSP = 10"

definition NCCS :: nat where "NCCS = 19"

section \<open>The operating system as seen by the package\<close>

text \<open>
  Every system call is recorded in a log, and the kernel's answer to the \<open>n\<close>-th call
  of a run is read from an oracle at index \<open>n\<close>: its errno (\<open>0\<close> for success) and
  what it writes through the pointer argument (a number for \<open>TIOCGPTN\<close>, a structure for
  \<open>TCGETS\<close>, a byte for a one-byte \<open>read\<close>).  \<open>open\<close> returns the lowest descriptor
  that is not open; \<open>close\<close> releases the descriptor whatever errno it reports.
\<close>

datatype syscall =
    SysOpen string
  | SysIoctl nat nat
  | SysClose nat
  | SysRead nat
  | SysWrite nat string
  | SysTcsets nat Termios

record kernel =
  errno_at :: "nat \<Rightarrow> nat"
  word_at :: "nat \<Rightarrow> u32"
  termios_at :: "nat \<Rightarrow> Termios"
  byte_at :: "nat \<Rightarrow> u8"

record os_state =
  open_fds :: "nat list"
  log :: "syscall list"

datatype error =
    Errno nat
  | ErrorString string
  | PathError string string error

text \<open>The method \<open>Error()\<close> of an error value; \<open>strerror\<close> is the errno message table.\<close>

fun Error :: "(nat \<Rightarrow> string) \<Rightarrow> error \<Rightarrow> string" where
  "Error strerror (Errno n) = strerror n"
| "Error strerror (ErrorString m) = m"
| "Error strerror (PathError op path e) = op @ '' '' @ path @ '': '' @ Error strerror e"

text \<open>An \<open>*os.File\<close>: \<open>None\<close> is the nil pointer.\<close>

record File =
  fd :: nat
  name :: string

definition Fd :: "File option \<Rightarrow> nat" where
  "Fd f = (case f of None \<Rightarrow> 2 ^ 64 - 1 | Some x \<Rightarrow> fd x)"

text \<open>The index of the kernel's answer to the next system call, and an ioctl.\<close>

definition answer_no :: "os_state \<Rightarrow> nat" where
  "answer_no s = length (log s)"

definition ioctl :: "kernel \<Rightarrow> nat \<Rightarrow> nat \<Rightarrow> os_state \<Rightarrow> nat \<times> os_state" where
  "ioctl k d req s = (errno_at k (answer_no s), s\<lparr>log := log s @ [SysIoctl d req]\<rparr>)"

text \<open>The descriptor that \<open>open\<close> hands out: the lowest one that is not open.\<close>

definition lowest_free :: "nat list \<Rightarrow> nat" where
  "lowest_free ds = hd (filter (\<lambda>n. n \<notin> set ds) [0..<Suc (length ds)])"

text \<open>\<open>os.OpenFile\<close>.\<close>

definition OpenFile :: "kernel \<Rightarrow> string \<Rightarrow> os_state \<Rightarrow> (error + File) \<times> os_state" where
  "OpenFile k path s =
     (let e = errno_at k (answer_no s);
          s' = s\<lparr>log := log s @ [SysOpen path]\<rparr>
      in if e \<noteq> 0 then (Inl (PathError ''open'' path (Errno e)), s')
         else (let d = lowest_free (open_fds s)
               in (Inr \<lparr>fd = d, name = path\<rparr>, s'\<lparr>open_fds := d # open_fds s\<rparr>)))"

text \<open>
  \<open>(*os.File).Close\<close> on a non-nil file.  A file whose descriptor is no longer open
  has been closed before.
\<close>

definition File_Close :: "kernel \<Rightarrow> File \<Rightarrow> os_state \<Rightarrow> error option \<times> os_state" where
  "File_Close k f s =
     (if fd f \<notin> set (open_fds s)
      then (Some (PathError ''close'' (name f) (ErrorString ''file already closed'')), s)
      else (let e = errno_at k (answer_no s);
                s' = s\<lparr>open_fds := removeAll (fd f) (open_fds s),
                        log := log s @ [SysClose (fd f)]\<rparr>
            in (if e \<noteq> 0 then Some (PathError ''close'' (name f) (Errno e)) else None, s')))"

text \<open>
  \<open>(*os.File).Write\<close> of a whole string and \<open>(*os.File).Read\<close> into a one-byte
  buffer.  A read either stores one byte or returns an error (end of input included) and
  stores nothing.
\<close>

definition File_Write :: "kernel \<Rightarrow> File option \<Rightarrow> string \<Rightarrow> os_state \<Rightarrow> error option \<times> os_state" where
  "File_Write k f bs s =
     (case f of
        None \<Rightarrow> (Some (ErrorString ''invalid argument''), s)
      | Some x \<Rightarrow>
          (let errno = errno_at k (answer_no s);
               s' = s\<lparr>log := log s @ [SysWrite (fd x) bs]\<rparr>
           in (if errno \<noteq> 0 then Some (PathError ''write'' (name x) (Errno errno)) else None, s')))"

definition File_Read :: "kernel \<Rightarrow> File option \<Rightarrow> u8 \<Rightarrow> os_state \<Rightarrow> (u8 \<times> error option) \<times> os_state" where
  "File_Read k f b s =
     (case f of
        None \<Rightarrow> ((b, Some (ErrorString ''invalid argument'')), s)
      | Some x \<Rightarrow>
          (let errno = errno_at k (answer_no s);
               s' = s\<lparr>log := log s @ [SysRead (fd x)]\<rparr>
           in if errno \<noteq> 0 then ((b, Some (PathError ''read'' (name x) (Errno errno))), s')
              else ((byte_at k (answer_no s), None), s')))"

section \<open>Library functions\<close>

text \<open>\<open>strings.Join\<close>.\<close>

fun Join :: "string list \<Rightarrow> string \<Rightarrow> string" where
  "Join [] sep = ''''"
| "Join [x] sep = x"
| "Join (x # y # xs) sep = x @ sep @ Join (y # xs) sep"

text \<open>The decimal digits of a natural number, most significant first.\<close>

fun digits :: "nat \<Rightarrow> string" where
  "digits n = (if n < 10 then [''0123456789'' ! n]
               else digits (n div 10) @ [''0123456789'' ! (n mod 10)])"

declare digits.simps [simp del]

text \<open>\<open>strconv.Itoa\<close>.\<close>

definition Itoa :: "int \<Rightarrow> string" where
  "Itoa i = (if i < 0 then CHR ''-'' # digits (nat (- i)) else digits (nat i))"

text \<open>
  A byte slice: the backing array from the slice's first element on (its length is the
  capacity) and the slice's length.  \<open>pbuf[:n]\<close> panics when \<open>n\<close> exceeds the
  capacity.
\<close>

record slice =
  arr :: "u8 list"
  len :: nat

datatype 'a outcome = Return 'a | Panic string

section \<open>Terminal attributes and password reading\<close>

text \<open>
  \<open>Attr\<close>: \<open>t\<close> is the variable as the \<open>TCGETS\<close> ioctl leaves it.
\<close>

definition Attr :: "kernel \<Rightarrow> File option \<Rightarrow> os_state \<Rightarrow> (Termios \<times> error option) \<times> os_state" where
  "Attr k f s =
     (let t = termios_at k (answer_no s);
          (errno, s') = ioctl k (Fd f) TCGETS s
      in if errno \<noteq> 0 then ((t, Some (Errno errno)), s')
         else ((t\<lparr>Ispeed := Ispeed t AND (CBAUD OR CBAUDEX),
                  Ospeed := Ospeed t AND (CBAUD OR CBAUDEX)\<rparr>, None), s'))"

text \<open>
  \<open>Set\<close>: the \<open>TCSETS\<close> ioctl.  The structure handed to the kernel is part of the
  log entry.
\<close>

definition Set :: "kernel \<Rightarrow> Termios \<Rightarrow> File option \<Rightarrow> os_state \<Rightarrow> error option \<times> os_state" where
  "Set k t f s =
     (let errno = errno_at k (answer_no s);
          s' = s\<lparr>log := log s @ [SysTcsets (Fd f) t]\<rparr>
      in (if errno \<noteq> 0 then Some (Errno errno) else None, s'))"

text \<open>\<open>clearbuf(pbuf[:n])\<close> for \<open>n\<close> within the capacity: the first \<open>n\<close> bytes become zero.\<close>

definition clearbuf :: "u8 list \<Rightarrow> nat \<Rightarrow> u8 list" where
  "clearbuf a n = replicate n 0 @ drop n a"

text \<open>
  The loop of \<open>GetPass\<close> from index \<open>i\<close> with \<open>b[0] = b\<close>, and the two statements
  after it.  The result is the return value (the bytes of \<open>pbuf[:i]\<close>, or nil, and the
  error) or a panic, together with the backing array as the call leaves it.
\<close>

function GetPass_loop ::
  "kernel \<Rightarrow> File option \<Rightarrow> nat \<Rightarrow> u8 \<Rightarrow> slice \<Rightarrow> os_state
     \<Rightarrow> ((u8 list option \<times> error option) outcome \<times> u8 list) \<times> os_state" where
  "GetPass_loop k f i b pbuf s =
     (if i < len pbuf then
        (case File_Read k f b s of
           ((b1, err), s1) \<Rightarrow>
             (let (b2, a2) = (if err \<noteq> None then (0, clearbuf (arr pbuf) (i + 1))
                              else (b1, arr pbuf))
              in if b2 = 10 \<or> b2 = 13 then ((Return (Some (take i a2), None), a2), s1)
                 else GetPass_loop k f (i + 1) 0 (pbuf\<lparr>arr := a2[i := b2]\<rparr>) s1))
      else if i + 1 > length (arr pbuf)
           then ((Panic ''slice bounds out of range'', arr pbuf), s)
           else ((Return (None, Some (ErrorString ''ran out of bufferspace'')),
                  clearbuf (arr pbuf) (i + 1)), s))"
  by pat_completeness auto

termination
  by (relation "measure (\<lambda>(k, f, i, b, pbuf, s). len pbuf - i)") auto

declare GetPass_loop.simps [simp del]

definition GetPass ::
  "kernel \<Rightarrow> string \<Rightarrow> File option \<Rightarrow> slice \<Rightarrow> os_state
     \<Rightarrow> ((u8 list option \<times> error option) outcome \<times> u8 list) \<times> os_state" where
  "GetPass k prompt f pbuf s =
     (case Attr k f s of
        ((t, Some err), s1) \<Rightarrow> ((Return (None, Some err), arr pbuf), s1)
      | ((t, None), s1) \<Rightarrow>
          (let deferred = (\<lambda>(r, s'). (r, snd (Set k t f s')));
               noecho = t\<lparr>Lflag := Lflag t AND NOT ECHO\<rparr>
           in case Set k noecho f s1 of
                (Some err, s2) \<Rightarrow> deferred ((Return (None, Some err), arr pbuf), s2)
              | (None, s2) \<Rightarrow>
                  (case File_Write k f prompt s2 of
                     (Some err, s3) \<Rightarrow> deferred ((Return (None, Some err), arr pbuf), s3)
                   | (None, s3) \<Rightarrow> deferred (GetPass_loop k f 0 0 pbuf s3))))"

section \<open>PTY pairs\<close>

record PTY =
  Master :: "File option"
  Slave :: "File option"

text \<open>
  \<open>PTSNumber\<close>: \<open>ptyno\<close> is a zero-initialised \<open>uint\<close>; \<open>TIOCGPTN\<close> (whose request
  code carries the size 4) stores an unsigned 32-bit number into it.
\<close>

definition PTSNumber :: "kernel \<Rightarrow> PTY \<Rightarrow> os_state \<Rightarrow> (u64 \<times> error option) \<times> os_state" where
  "PTSNumber k p s =
     (let ptyno = (ucast (word_at k (answer_no s)) :: u64);
          (errno, s') = ioctl k (Fd (Master p)) TIOCGPTN s
      in if errno \<noteq> 0 then ((0, Some (Errno errno)), s')
         else ((ptyno, None), s'))"

definition PTSName :: "kernel \<Rightarrow> PTY \<Rightarrow> os_state \<Rightarrow> (string \<times> error option) \<times> os_state" where
  "PTSName k p s =
     (case PTSNumber k p s of
        ((n, Some err), s') \<Rightarrow> (('''', Some err), s')
      | ((n, None), s') \<Rightarrow> ((''/dev/pts/'' @ Itoa (sint n), None), s'))"

definition OpenPTY :: "kernel \<Rightarrow> os_state \<Rightarrow> (error + PTY) \<times> os_state" where
  "OpenPTY k s =
     (case OpenFile k ''/dev/ptmx'' s of
        (Inl err, s1) \<Rightarrow> (Inl err, s1)
      | (Inr master, s1) \<Rightarrow>
          (case ioctl k (Fd (Some master)) TIOCSPTLCK s1 of
             (errno, s2) \<Rightarrow>
               if errno \<noteq> 0
               then (Inl (Errno errno), snd (File_Close k master s2))
               else (let pty = \<lparr>Master = Some master, Slave = None\<rparr>
                     in case PTSName k pty s2 of
                          ((slaveStr, Some err), s3) \<Rightarrow> (Inl err, snd (File_Close k master s3))
                        | ((slaveStr, None), s3) \<Rightarrow>
                            (case OpenFile k slaveStr s3 of
                               (Inl err, s4) \<Rightarrow> (Inl err, snd (File_Close k master s4))
                             | (Inr slave, s4) \<Rightarrow> (Inr (pty\<lparr>Slave := Some slave\<rparr>), s4)))))"

definition Close :: "(nat \<Rightarrow> string) \<Rightarrow> kernel \<Rightarrow> PTY \<Rightarrow> os_state \<Rightarrow> error option \<times> os_state" where
  "Close strerror k p s =
     (let (slaveErr, s1) = (case Slave p of
                              None \<Rightarrow> (Some (ErrorString ''Slave FD nil''), s)
                            | Some f \<Rightarrow> File_Close k f s);
          (masterErr, s2) = (case Master p of
                               None \<Rightarrow> (Some (ErrorString ''Master FD nil''), s1)
                             | Some f \<Rightarrow> File_Close k f s1)
      in if slaveErr \<noteq> None \<or> masterErr \<noteq> None
         then (let errs = [];
                   errs = (case slaveErr of
                             Some e \<Rightarrow> errs @ [''Slave: '' @ Error strerror e]
                           | None \<Rightarrow> errs);
                   errs = (case masterErr of
                             Some e \<Rightarrow> errs @ [''Master: '' @ Error strerror e]
                           | None \<Rightarrow> errs)
               in (Some (ErrorString (Join errs '' '')), s2))
         else (None, s2))"

section \<open>Raw and cooked mode\<close>

text \<open>
  Modelled from the spec: \<open>Raw\<close>, whose source file is missing.  It clears the input
  flags for break, parity marking, stripping, newline translation and flow control (the
  flags \<open>testraw\<close> tests), output post-processing, the local echo, canonical, signal and
  extended-processing flags and parity-enable, forces the character-size field to 8 bits,
  and sets the slots for "return after 1 byte, no timeout".
\<close>

definition Raw :: "Termios \<Rightarrow> Termios" where
  "Raw t = t\<lparr>
     Iflag := Iflag t AND NOT (IGNBRK OR BRKINT OR PARMRK OR ISTRIP OR INLCR OR IGNCR OR ICRNL OR IXON),
     Oflag := Oflag t AND NOT OPOST,
     Lflag := Lflag t AND NOT (ECHO OR ECHONL OR ICANON OR ISIG OR IEXTEN),
     Cflag := (Cflag t AND NOT (CSIZE OR PARENB)) OR CS8,
     Cc := (Cc t)[VMIN := 1, VTIME := 0]\<rparr>"

text \<open>
  Modelled from the spec: \<open>Cook\<close>, whose source file is missing.  It sets the input
  flags for break-interrupt, parity-check, strip, CR-to-NL translation and start/stop flow
  control, output post-processing, and the local signal-generation and canonical-mode
  flags (the flags \<open>testcook\<close> tests).
\<close>

definition Cook :: "Termios \<Rightarrow> Termios" where
  "Cook t = t\<lparr>
     Iflag := Iflag t OR (BRKINT OR IGNPAR OR ISTRIP OR ICRNL OR IXON),
     Oflag := Oflag t OR OPOST,
     Lflag := Lflag t OR (ISIG OR ICANON)\<rparr>"

section \<open>The SSH codec\<close>

text \<open>
  Modelled from the spec: the SSH codec (\<open>ToSSH\<close>, \<open>FromSSH\<close>) and its opcode table,
  whose source file is missing.  The table is the list of spec section 6 with the opcode
  numbers of the SSH standard; a mode list is a sequence of pairs of one opcode byte and
  a 32-bit big-endian value, closed by the opcode 0.
\<close>

datatype attr =
    CcSlot nat
  | IflagBit u32
  | OflagBit u32
  | CflagBit u32
  | LflagBit u32
  | InSpeed
  | OutSpeed

definition ssh_table :: "(u8 \<times> attr) list" where
  "ssh_table =
     [(1, CcSlot VINTR), (2, CcSlot VQUIT), (3, CcSlot VERASE), (4, CcSlot VKILL),
      (5, CcSlot VEOF), (8, CcSlot VSTART), (9, CcSlot VSTOP), (10, CcSlot VSUSP),
      (36, IflagBit ICRNL), (35, IflagBit IGNCR), (34, IflagBit INLCR), (38, IflagBit IXON),
      (40, IflagBit IXOFF),
      (50, LflagBit ISIG), (51, LflagBit ICANON), (53, LflagBit ECHO), (54, LflagBit ECHOE),
      (55, LflagBit ECHOK), (56, LflagBit ECHONL),
      (70, OflagBit OPOST),
      (90, CflagBit CS7), (91, CflagBit CS8), (92, CflagBit PARENB), (93, CflagBit PARODD),
      (128, InSpeed), (129, OutSpeed)]"

text \<open>
  Modelled from the spec: the fixed-width big-endian form of a 32-bit value (spec section
  4.2), and its reading.
\<close>

definition be32 :: "u32 \<Rightarrow> u8 list" where
  "be32 v = [ucast (drop_bit 24 v), ucast (drop_bit 16 v), ucast (drop_bit 8 v), ucast v]"

definition of_be32 :: "u8 \<Rightarrow> u8 \<Rightarrow> u8 \<Rightarrow> u8 \<Rightarrow> u32" where
  "of_be32 b0 b1 b2 b3 =
     push_bit 24 (ucast b0) OR push_bit 16 (ucast b1) OR push_bit 8 (ucast b2) OR ucast b3"



text \<open>
  Modelled from the spec: \<open>FromSSH\<close>.  It starts from the zero value, reads pairs up to
  the opcode 0 or up to the point where fewer than five bytes are left, sets what a
  recognised opcode names (a flag when the value is not zero) and ignores the others.
\<close>

fun set_attr :: "attr \<Rightarrow> u32 \<Rightarrow> Termios \<Rightarrow> Termios" where
  "set_attr (CcSlot i) v t = t\<lparr>Cc := (Cc t)[i := ucast v]\<rparr>"
| "set_attr (IflagBit m) v t = (if v \<noteq> 0 then t\<lparr>Iflag := Iflag t OR m\<rparr> else t)"
| "set_attr (OflagBit m) v t = (if v \<noteq> 0 then t\<lparr>Oflag := Oflag t OR m\<rparr> else t)"
| "set_attr (CflagBit m) v t = (if v \<noteq> 0 then t\<lparr>Cflag := Cflag t OR m\<rparr> else t)"
| "set_attr (LflagBit m) v t = (if v \<noteq> 0 then t\<lparr>Lflag := Lflag t OR m\<rparr> else t)"
| "set_attr InSpeed v t = t\<lparr>Ispeed := v\<rparr>"
| "set_attr OutSpeed v t = t\<lparr>Ospeed := v\<rparr>"

text \<open>
  Modelled from the spec: one pair read by \<open>FromSSH\<close>; an opcode outside the table
  changes nothing.
\<close>

definition apply_pair :: "u8 \<Rightarrow> u32 \<Rightarrow> Termios \<Rightarrow> Termios" where
  "apply_pair op v t = (case map_of ssh_table op of None \<Rightarrow> t | Some a \<Rightarrow> set_attr a v t)"

text \<open>
  Modelled from the spec: the reading loop of \<open>FromSSH\<close>.  A pair is an opcode and four
  value bytes; reading stops at the opcode 0 and where fewer than five bytes are left.
\<close>

fun parse_modes :: "u8 list \<Rightarrow> Termios \<Rightarrow> Termios" where
  "parse_modes (op # b0 # b1 # b2 # b3 # rest) t =
     (if op = 0 then t else parse_modes rest (apply_pair op (of_be32 b0 b1 b2 b3) t))"
| "parse_modes bs t = t"

text \<open>
  Modelled from the spec: the zero value of \<open>Termios\<close> and \<open>FromSSH\<close> itself, which
  fills a zero value.
\<close>

definition zero_Termios :: Termios where
  "zero_Termios = \<lparr>Iflag = 0, Oflag = 0, Cflag = 0, Lflag = 0, Cc = replicate NCCS 0,
     Ispeed = 0, Ospeed = 0, Wz = \<lparr>WsRow = 0, WsCol = 0, WsXpixel = 0, WsYpixel = 0\<rparr>\<rparr>"

definition FromSSH :: "u8 list \<Rightarrow> Termios" where
  "FromSSH bs = parse_modes bs zero_Termios"

section \<open>Definitions used in the statements and proofs\<close>

definition dec_value :: "string \<Rightarrow> nat" where
  "dec_value cs = foldl (\<lambda>a c. 10 * a + (of_char c - 48)) 0 cs"

text \<open>The wire form of a list of pairs, without the closing opcode.\<close>

definition encode_pairs :: "(u8 \<times> u32) list \<Rightarrow> u8 list" where
  "encode_pairs ps = concat (map (\<lambda>(op, v). op # be32 v) ps)"




section \<open>Sample inputs\<close>

definition ex_termios :: Termios where
  "ex_termios = \<lparr>Iflag = 0x500, Oflag = 5, Cflag = 0xBF, Lflag = 0x8A3B,
     Cc = [3, 28, 127, 21, 4, 0, 1, 0, 17, 19, 26, 0, 18, 15, 23, 22, 0, 0, 0],
     Ispeed = 0xFFFF000F, Ospeed = 0x100F,
     Wz = \<lparr>WsRow = 24, WsCol = 80, WsXpixel = 0, WsYpixel = 0\<rparr>\<rparr>"


definition ex_kernel_ok :: kernel where
  "ex_kernel_ok = \<lparr>errno_at = (\<lambda>n. 0), word_at = (\<lambda>n. 7),
     termios_at = (\<lambda>n. ex_termios), byte_at = (\<lambda>n. 0)\<rparr>"

definition ex_kernel_fail :: kernel where
  "ex_kernel_fail = \<lparr>errno_at = (\<lambda>n. 25), word_at = (\<lambda>n. 7),
     termios_at = (\<lambda>n. ex_termios), byte_at = (\<lambda>n. 0)\<rparr>"

definition ex_kernel_slave_fail :: kernel where
  "ex_kernel_slave_fail = \<lparr>errno_at = (\<lambda>n. if n = 3 then 13 else 0), word_at = (\<lambda>n. 7),
     termios_at = (\<lambda>n. ex_termios), byte_at = (\<lambda>n. 0)\<rparr>"

definition ex_kernel_renumber :: kernel where
  "ex_kernel_renumber = \<lparr>errno_at = (\<lambda>n. if n = 2 then 5 else 0),
     word_at = (\<lambda>n. if n = 0 then 7 else 12),
     termios_at = (\<lambda>n. ex_termios), byte_at = (\<lambda>n. 0)\<rparr>"

definition ex_kernel_typing :: kernel where
  "ex_kernel_typing = \<lparr>errno_at = (\<lambda>n. 0), word_at = (\<lambda>n. 0),
     termios_at = (\<lambda>n. ex_termios), byte_at = (\<lambda>n. 115)\<rparr>"

definition ex_os :: os_state where
  "ex_os = \<lparr>open_fds = [0, 1, 2], log = []\<rparr>"

definition ex_os_pty :: os_state where
  "ex_os_pty = \<lparr>open_fds = [4, 3, 0, 1, 2], log = []\<rparr>"

definition ex_pty :: PTY where
  "ex_pty = \<lparr>Master = Some \<lparr>fd = 3, name = ''/dev/ptmx''\<rparr>,
             Slave = Some \<lparr>fd = 4, name = ''/dev/pts/7''\<rparr>\<rparr>"

definition ex_tty :: "File option" where
  "ex_tty = Some \<lparr>fd = 0, name = ''/dev/tty''\<rparr>"

definition ex_strerror :: "nat \<Rightarrow> string" where
  "ex_strerror n = (if n = 25 then ''inappropriate ioctl for device'' else ''errno '' @ digits n)"

section \<open>Theorems\<close>

subsection \<open>Attr\<close>

lemma and_mask_outside: "(x AND m) AND NOT m = (0 :: u32)"
  by (simp add: and.assoc)

text \<open>
  C10.  When \<open>Attr\<close> returns a nil error, every bit of \<open>Ispeed\<close> and of \<open>Ospeed\<close>
  outside \<open>CBAUD|CBAUDEX\<close> is zero, and both are the kernel's values under that mask;
  when the ioctl fails, the structure is returned as the kernel left it, unmasked,
  together with the raw errno.
\<close>

theorem Attr_speed_mask:
  "(snd (fst (Attr k f s)) = None \<longrightarrow>
      errno_at k (answer_no s) = 0 \<and>
      Ispeed (fst (fst (Attr k f s))) AND NOT (CBAUD OR CBAUDEX) = 0 \<and>
      Ospeed (fst (fst (Attr k f s))) AND NOT (CBAUD OR CBAUDEX) = 0 \<and>
      Ispeed (fst (fst (Attr k f s))) = Ispeed (termios_at k (answer_no s)) AND (CBAUD OR CBAUDEX) \<and>
      Ospeed (fst (fst (Attr k f s))) = Ospeed (termios_at k (answer_no s)) AND (CBAUD OR CBAUDEX)) \<and>
   (snd (fst (Attr k f s)) \<noteq> None \<longrightarrow>
      errno_at k (answer_no s) \<noteq> 0 \<and>
      fst (Attr k f s) = (termios_at k (answer_no s), Some (Errno (errno_at k (answer_no s)))))"
  by (simp add: Attr_def ioctl_def Let_def and_mask_outside del: bit.de_Morgan_disj)

theorem Attr_speed_mask_witness:
  "snd (fst (Attr ex_kernel_ok ex_tty ex_os)) = None \<and>
   Ispeed (fst (fst (Attr ex_kernel_ok ex_tty ex_os))) = 15 \<and>
   Ispeed (fst (fst (Attr ex_kernel_ok ex_tty ex_os))) AND NOT (CBAUD OR CBAUDEX) = 0 \<and>
   snd (fst (Attr ex_kernel_fail ex_tty ex_os)) \<noteq> None \<and>
   fst (Attr ex_kernel_fail ex_tty ex_os) = (ex_termios, Some (Errno 25))"
  using Attr_speed_mask [of ex_kernel_ok ex_tty ex_os] Attr_speed_mask [of ex_kernel_fail ex_tty ex_os]
  by (simp add: Attr_def ioctl_def Let_def answer_no_def ex_kernel_ok_def ex_kernel_fail_def
      ex_os_def ex_termios_def CBAUD_def CBAUDEX_def)

subsection \<open>OpenPTY, Close and PTSName\<close>

lemma lowest_free_fresh: "lowest_free ds \<notin> set ds"
proof -
  have "\<not> {0..<Suc (length ds)} \<subseteq> set ds"
  proof
    assume "{0..<Suc (length ds)} \<subseteq> set ds"
    then have "card {0..<Suc (length ds)} \<le> card (set ds)"
      by (intro card_mono) simp_all
    moreover have "card (set ds) \<le> length ds" by (rule card_length)
    ultimately show False by simp
  qed
  then obtain x where "x \<in> {0..<Suc (length ds)}" and "x \<notin> set ds"
    by blast
  then have "x \<in> set (filter (\<lambda>n. n \<notin> set ds) [0..<Suc (length ds)])"
    by (simp del: upt_Suc)
  then have "filter (\<lambda>n. n \<notin> set ds) [0..<Suc (length ds)] \<noteq> []"
    by (metis empty_iff list.set(1))
  then have "hd (filter (\<lambda>n. n \<notin> set ds) [0..<Suc (length ds)])
               \<in> set (filter (\<lambda>n. n \<notin> set ds) [0..<Suc (length ds)])"
    by (rule hd_in_set)
  then show ?thesis by (simp add: lowest_free_def del: upt_Suc)
qed

lemma sint_ptyno: "sint (ucast (w :: u32) :: u64) = uint w"
proof -
  have "uint w < 2 ^ 32" using uint_bounded [of w] by simp
  then have "uint w < 2 ^ 63" by simp
  moreover have "- (2 ^ 63) \<le> uint w" by (rule order_trans [of _ 0]) simp_all
  ultimately have "signed_take_bit 63 (uint w) = uint w"
    by (rule signed_take_bit_int_eq_self [rotated])
  then show ?thesis by (simp add: signed_ucast_eq)
qed

lemma Itoa_ptyno: "Itoa (sint (ucast (w :: u32) :: u64)) = digits (unat w)"
  by (simp only: sint_ptyno) (simp add: Itoa_def)

lemma PTSName_eq:
  "PTSName k p s =
     ((if errno_at k (answer_no s) = 0
       then (''/dev/pts/'' @ digits (unat (word_at k (answer_no s))), None)
       else ('''', Some (Errno (errno_at k (answer_no s))))),
      s\<lparr>log := log s @ [SysIoctl (Fd (Master p)) TIOCGPTN]\<rparr>)"
  by (simp add: PTSName_def PTSNumber_def ioctl_def Let_def Itoa_ptyno)

lemma File_Close_open:
  "fd f \<in> set (open_fds s) \<Longrightarrow>
   snd (File_Close k f s) =
     s\<lparr>open_fds := removeAll (fd f) (open_fds s), log := log s @ [SysClose (fd f)]\<rparr>"
  by (simp add: File_Close_def Let_def)

lemma lowest_free_Cons:
  "lowest_free (d # ds) \<noteq> d" "d \<noteq> lowest_free (d # ds)" "lowest_free (d # ds) \<notin> set ds"
  using lowest_free_fresh [of "d # ds"] by auto

text \<open>
  C6.  \<open>OpenPTY\<close> either returns a PTY and no error, and then master and slave are
  two different descriptors, both open afterwards and neither open before, the slave
  opened at \<open>/dev/pts/\<close> followed by the number the kernel reported; or it returns
  an error and no PTY, and then the set of open descriptors is what it was before the
  call: if \<open>/dev/ptmx\<close> could not be opened nothing else was called, and otherwise
  the last system call made is the close of the master.
\<close>

theorem OpenPTY_pair_or_clean_failure:
  "(case OpenPTY k s of
      (Inr pty, s') \<Rightarrow>
        (\<exists>m sl. Master pty = Some m \<and> Slave pty = Some sl \<and> fd m \<noteq> fd sl \<and>
           fd m \<in> set (open_fds s') \<and> fd sl \<in> set (open_fds s') \<and>
           fd m \<notin> set (open_fds s) \<and> fd sl \<notin> set (open_fds s) \<and>
           name sl = ''/dev/pts/'' @ digits (unat (word_at k (answer_no s + 2))) \<and>
           log s' = log s @ [SysOpen ''/dev/ptmx'', SysIoctl (fd m) TIOCSPTLCK,
                             SysIoctl (fd m) TIOCGPTN, SysOpen (name sl)])
    | (Inl err, s') \<Rightarrow>
        open_fds s' = open_fds s \<and>
        (if errno_at k (answer_no s) \<noteq> 0 then log s' = log s @ [SysOpen ''/dev/ptmx'']
         else last (log s') = SysClose (lowest_free (open_fds s))))"
  by (simp add: OpenPTY_def OpenFile_def ioctl_def Let_def PTSName_eq File_Close_open
      lowest_free_fresh lowest_free_Cons answer_no_def Fd_def)

lemma lowest_free_ex: "lowest_free [0, Suc 0, 2] = 3" "lowest_free [3, 0, Suc 0, 2] = 4"
  by (simp_all add: lowest_free_def upt_rec)

lemma digits_7: "digits 7 = ''7''"
  by (simp add: digits.simps)

theorem OpenPTY_pair_or_clean_failure_witness:
  "OpenPTY ex_kernel_ok ex_os =
     (Inr \<lparr>Master = Some \<lparr>fd = 3, name = ''/dev/ptmx''\<rparr>,
           Slave = Some \<lparr>fd = 4, name = ''/dev/pts/7''\<rparr>\<rparr>,
      \<lparr>open_fds = [4, 3, 0, 1, 2],
       log = [SysOpen ''/dev/ptmx'', SysIoctl 3 TIOCSPTLCK, SysIoctl 3 TIOCGPTN,
              SysOpen ''/dev/pts/7'']\<rparr>) \<and>
   OpenPTY ex_kernel_slave_fail ex_os =
     (Inl (PathError ''open'' ''/dev/pts/7'' (Errno 13)),
      \<lparr>open_fds = [0, 1, 2],
       log = [SysOpen ''/dev/ptmx'', SysIoctl 3 TIOCSPTLCK, SysIoctl 3 TIOCGPTN,
              SysOpen ''/dev/pts/7'', SysClose 3]\<rparr>)"
  using OpenPTY_pair_or_clean_failure [where k = ex_kernel_ok and s = ex_os]
    OpenPTY_pair_or_clean_failure [where k = ex_kernel_slave_fail and s = ex_os]
  by (simp add: OpenPTY_def OpenFile_def ioctl_def Let_def PTSName_eq File_Close_def
      answer_no_def Fd_def ex_kernel_ok_def ex_kernel_slave_fail_def ex_os_def lowest_free_ex
      digits_7)

text \<open>
  C7.  \<open>PTY.Close\<close> handles the slave side and then the master side, the master
  whatever happened to the slave; a nil side counts as the error \<open>Slave FD nil\<close> or
  \<open>Master FD nil\<close>.  The result is nil exactly when neither side has an error, which
  needs both sides present; otherwise it is one error whose message is
  \<open>Slave: ...\<close>, \<open>Master: ...\<close>, or both joined by a blank, one part for each side
  that has an error.
\<close>

theorem Close_combined_error:
  "(let rs = (case Slave p of
                None \<Rightarrow> (Some (ErrorString ''Slave FD nil''), s)
              | Some f \<Rightarrow> File_Close k f s);
        rm = (case Master p of
                None \<Rightarrow> (Some (ErrorString ''Master FD nil''), snd rs)
              | Some f \<Rightarrow> File_Close k f (snd rs))
    in snd (Close strerror k p s) = snd rm \<and>
       (fst (Close strerror k p s) = None \<longleftrightarrow> fst rs = None \<and> fst rm = None) \<and>
       (fst (Close strerror k p s) = None \<longrightarrow> Slave p \<noteq> None \<and> Master p \<noteq> None) \<and>
       (\<forall>e1. fst rs = Some e1 \<and> fst rm = None \<longrightarrow>
          fst (Close strerror k p s) = Some (ErrorString (''Slave: '' @ Error strerror e1))) \<and>
       (\<forall>e2. fst rs = None \<and> fst rm = Some e2 \<longrightarrow>
          fst (Close strerror k p s) = Some (ErrorString (''Master: '' @ Error strerror e2))) \<and>
       (\<forall>e1 e2. fst rs = Some e1 \<and> fst rm = Some e2 \<longrightarrow>
          fst (Close strerror k p s) =
            Some (ErrorString (''Slave: '' @ Error strerror e1 @ '' '' @
                               ''Master: '' @ Error strerror e2))))"
  by (auto simp: Close_def Let_def split: option.splits prod.splits)

theorem Close_combined_error_witness:
  "Close ex_strerror ex_kernel_ok ex_pty ex_os_pty =
     (None, \<lparr>open_fds = [0, 1, 2], log = [SysClose 4, SysClose 3]\<rparr>) \<and>
   Close ex_strerror ex_kernel_ok (ex_pty\<lparr>Slave := None\<rparr>) ex_os_pty =
     (Some (ErrorString ''Slave: Slave FD nil''),
      \<lparr>open_fds = [4, 0, 1, 2], log = [SysClose 3]\<rparr>) \<and>
   Close ex_strerror ex_kernel_fail (ex_pty\<lparr>Master := None\<rparr>) ex_os_pty =
     (Some (ErrorString
        ''Slave: close /dev/pts/7: inappropriate ioctl for device Master: Master FD nil''),
      \<lparr>open_fds = [3, 0, 1, 2], log = [SysClose 4]\<rparr>)"
  using Close_combined_error [where p = ex_pty and s = ex_os_pty and k = ex_kernel_ok
      and strerror = ex_strerror]
    Close_combined_error [where p = "ex_pty\<lparr>Slave := None\<rparr>" and s = ex_os_pty
      and k = ex_kernel_ok and strerror = ex_strerror]
    Close_combined_error [where p = "ex_pty\<lparr>Master := None\<rparr>" and s = ex_os_pty
      and k = ex_kernel_fail and strerror = ex_strerror]
  by (simp add: Close_def File_Close_def Let_def answer_no_def ex_pty_def ex_os_pty_def
      ex_kernel_ok_def ex_kernel_fail_def ex_strerror_def)

lemma digit_char: "d < 10 \<Longrightarrow> of_char (''0123456789'' ! d) = (48 + d :: nat)"
proof -
  assume "d < 10"
  then have "d \<in> {0,1,2,3,4,5,6,7,8,9}" by auto
  then show ?thesis by (auto simp: nth_Cons')
qed

lemma dec_value_snoc: "dec_value (cs @ [c]) = 10 * dec_value cs + (of_char c - 48)"
  by (simp add: dec_value_def)

lemma dec_value_digits: "dec_value (digits n) = n"
proof (induction n rule: digits.induct)
  case (1 n)
  show ?case
  proof (cases "n < 10")
    case True
    then show ?thesis by (simp add: digits.simps [of n] dec_value_def digit_char)
  next
    case False
    then have "dec_value (digits (n div 10)) = n div 10" using 1 by simp
    with False show ?thesis
      by (simp add: digits.simps [of n] dec_value_snoc digit_char)
  qed
qed

text \<open>
  C9.  \<open>PTSName\<close> issues one \<open>TIOCGPTN\<close> ioctl on the master and returns
  \<open>/dev/pts/\<close> followed by the decimal digits of the number the kernel stored, or the
  empty path with the errno when the ioctl fails.  Nothing is remembered: a second call
  issues the ioctl again and its result is built from the kernel's second answer.  The
  digits read back as the number.
\<close>

theorem PTSName_fresh_query:
  "PTSName k p s =
     ((if errno_at k (answer_no s) = 0
       then (''/dev/pts/'' @ digits (unat (word_at k (answer_no s))), None)
       else ('''', Some (Errno (errno_at k (answer_no s))))),
      s\<lparr>log := log s @ [SysIoctl (Fd (Master p)) TIOCGPTN]\<rparr>) \<and>
   fst (PTSName k p (snd (PTSName k p s))) =
     (if errno_at k (Suc (answer_no s)) = 0
      then (''/dev/pts/'' @ digits (unat (word_at k (Suc (answer_no s)))), None)
      else ('''', Some (Errno (errno_at k (Suc (answer_no s)))))) \<and>
   dec_value (digits (unat (word_at k (answer_no s)))) = unat (word_at k (answer_no s))"
  by (simp add: PTSName_eq answer_no_def dec_value_digits)

lemma digits_12: "digits 12 = ''12''"
  by (simp add: digits.simps)

theorem PTSName_fresh_query_witness:
  "fst (PTSName ex_kernel_renumber ex_pty ex_os_pty) = (''/dev/pts/7'', None) \<and>
   fst (PTSName ex_kernel_renumber ex_pty (snd (PTSName ex_kernel_renumber ex_pty ex_os_pty)))
     = (''/dev/pts/12'', None) \<and>
   fst (PTSName ex_kernel_renumber ex_pty
         (snd (PTSName ex_kernel_renumber ex_pty
                (snd (PTSName ex_kernel_renumber ex_pty ex_os_pty)))))
     = ('''', Some (Errno 5))"
  using PTSName_fresh_query [where k = ex_kernel_renumber and p = ex_pty and s = ex_os_pty]
    PTSName_fresh_query [where k = ex_kernel_renumber and p = ex_pty
      and s = "snd (PTSName ex_kernel_renumber ex_pty ex_os_pty)"]
  by (simp add: PTSName_eq answer_no_def ex_kernel_renumber_def ex_os_pty_def digits_7 digits_12)

subsection \<open>GetPass\<close>

text \<open>
  C8.  A caller's buffer of length and capacity 2 (\<open>make([]byte, 2)\<close>), a terminal
  that delivers the byte \<open>s\<close> on every read, every call succeeding: the loop fills the
  buffer, and \<open>pbuf[:i+1]\<close> after the loop asks for 3 bytes of a capacity of 2.
  \<open>GetPass\<close> panics; it returns no error, and the two password bytes stay in the
  buffer.
\<close>

theorem GetPass_full_buffer_panics:
  "fst (GetPass ex_kernel_typing ''Password: '' ex_tty \<lparr>arr = [0, 0], len = 2\<rparr> ex_os)
     = (Panic ''slice bounds out of range'', [115, 115])"
  by (simp add: GetPass_def Attr_def ioctl_def Set_def File_Write_def File_Read_def Let_def
      GetPass_loop.simps answer_no_def ex_kernel_typing_def ex_tty_def ex_os_def Fd_def)

lemma length_clearbuf: "n \<le> length a \<Longrightarrow> length (clearbuf a n) = length a"
  by (simp add: clearbuf_def)

text \<open>
  The same for every terminal: when the buffer's capacity equals its length, the loop
  never reaches the return of \<open>ran out of bufferspace\<close>.
\<close>

lemma GetPass_loop_never_reports:
  "length (arr pbuf) = len pbuf \<Longrightarrow>
   fst (fst (GetPass_loop k f i b pbuf s))
     \<noteq> Return (None, Some (ErrorString ''ran out of bufferspace''))"
proof (induction k f i b pbuf s rule: GetPass_loop.induct)
  case (1 k f i b pbuf s)
  show ?case
  proof (cases "i < len pbuf")
    case False
    with "1.prems" show ?thesis
      by (simp add: GetPass_loop.simps [of k f i b pbuf s])
  next
    case True
    obtain b1 err s1 where r: "File_Read k f b s = ((b1, err), s1)"
      by (metis prod.exhaust)
    define b2 where "b2 = (if err \<noteq> None then 0 else b1)"
    define a2 where "a2 = (if err \<noteq> None then clearbuf (arr pbuf) (i + 1) else arr pbuf)"
    have la: "length a2 = len pbuf"
      using True "1.prems" by (simp add: a2_def length_clearbuf)
    show ?thesis
    proof (cases "b2 = 10 \<or> b2 = 13")
      case True
      with \<open>i < len pbuf\<close> r show ?thesis
        by (auto simp: GetPass_loop.simps [of k f i b pbuf s] b2_def a2_def)
    next
      case False
      have "fst (fst (GetPass_loop k f (i + 1) 0 (pbuf\<lparr>arr := a2[i := b2]\<rparr>) s1))
              \<noteq> Return (None, Some (ErrorString ''ran out of bufferspace''))"
        using "1.IH" [OF \<open>i < len pbuf\<close> r [symmetric] refl, of "(b2, a2)" b2 a2] False la
        by (simp add: b2_def a2_def)
      with False \<open>i < len pbuf\<close> r show ?thesis
        by (auto simp: GetPass_loop.simps [of k f i b pbuf s] b2_def a2_def)
    qed
  qed
qed

lemma GetPass_loop_reports_D:
  "GetPass_loop k f i b pbuf s
     = ((Return (None, Some (ErrorString ''ran out of bufferspace'')), a), s') \<Longrightarrow>
   length (arr pbuf) \<noteq> len pbuf"
  using GetPass_loop_never_reports [of pbuf k f i b s] by auto

lemma GetPass_never_reports:
  "length (arr pbuf) = len pbuf \<Longrightarrow>
   fst (fst (GetPass k prompt f pbuf s))
     \<noteq> Return (None, Some (ErrorString ''ran out of bufferspace''))"
  by (auto simp: GetPass_def Attr_def ioctl_def Set_def File_Write_def Let_def
      split: prod.splits option.splits if_splits dest: GetPass_loop_reports_D)

subsection \<open>Raw and Cook\<close>

lemmas flag_defs = IGNBRK_def BRKINT_def IGNPAR_def PARMRK_def ISTRIP_def INLCR_def IGNCR_def
  ICRNL_def IXON_def IXOFF_def OPOST_def CSIZE_def CS6_def CS7_def CS8_def PARENB_def PARODD_def
  ISIG_def ICANON_def ECHO_def ECHOE_def ECHOK_def ECHONL_def IEXTEN_def

lemma and_not_and: "(x AND NOT m) AND m = (0 :: u32)"
  by (simp add: and.assoc)

lemma or_and_self: "(x OR m) AND m = (m :: u32)"
  by (simp add: and.commute)

lemma Raw_flags:
  "Iflag (Raw t) AND (IGNBRK OR BRKINT OR PARMRK OR ISTRIP OR INLCR OR IGNCR OR ICRNL OR IXON) = 0"
  "Oflag (Raw t) AND OPOST = 0"
  "Lflag (Raw t) AND (ECHO OR ECHONL OR ICANON OR ISIG OR IEXTEN) = 0"
  by (simp_all add: Raw_def and_not_and del: bit.de_Morgan_disj)

lemma Raw_Cflag:
  "Cflag (Raw t) AND PARENB = 0"
  "Cflag (Raw t) AND CSIZE = CS8"
  by (simp_all add: Raw_def flag_defs bit.conj_disj_distrib2 and.assoc)

lemma Raw_Cc: "length (Cc t) = NCCS \<Longrightarrow> Cc (Raw t) ! VMIN = 1 \<and> Cc (Raw t) ! VTIME = 0"
  by (simp add: Raw_def NCCS_def VMIN_def VTIME_def)

lemma Cook_flags:
  "Iflag (Cook t) AND (BRKINT OR IGNPAR OR ISTRIP OR ICRNL OR IXON) = BRKINT OR IGNPAR OR ISTRIP OR ICRNL OR IXON"
  "Oflag (Cook t) AND OPOST = OPOST"
  "Lflag (Cook t) AND (ISIG OR ICANON) = ISIG OR ICANON"
  by (simp_all add: Cook_def or_and_self)

lemma Raw_idem_Cflag: "(((x AND NOT (CSIZE OR PARENB)) OR CS8) AND NOT (CSIZE OR PARENB)) OR CS8
   = (x AND NOT (CSIZE OR PARENB)) OR CS8"
  by (simp add: bit.conj_disj_distrib2 and.assoc flag_defs del: bit.de_Morgan_disj)

text \<open>
  C2.  After \<open>Raw\<close>, none of \<open>IGNBRK\<close>, \<open>BRKINT\<close>, \<open>PARMRK\<close>, \<open>ISTRIP\<close>,
  \<open>INLCR\<close>, \<open>IGNCR\<close>, \<open>ICRNL\<close>, \<open>IXON\<close> is set in \<open>Iflag\<close>, \<open>OPOST\<close> is not
  set in \<open>Oflag\<close>, none of \<open>ECHO\<close>, \<open>ECHONL\<close>, \<open>ICANON\<close>, \<open>ISIG\<close>, \<open>IEXTEN\<close> is
  set in \<open>Lflag\<close>, \<open>PARENB\<close> is not set in \<open>Cflag\<close>, the \<open>CSIZE\<close> field is \<open>CS8\<close>,
  \<open>Cc[VMIN]\<close> is 1 and \<open>Cc[VTIME]\<close> is 0.  The array \<open>Cc\<close> has its \<open>NCCS\<close> entries.
\<close>

theorem Raw_postcondition:
  assumes "length (Cc t) = NCCS"
  shows "Iflag (Raw t) AND
           (IGNBRK OR BRKINT OR PARMRK OR ISTRIP OR INLCR OR IGNCR OR ICRNL OR IXON) = 0 \<and>
         Oflag (Raw t) AND OPOST = 0 \<and>
         Lflag (Raw t) AND (ECHO OR ECHONL OR ICANON OR ISIG OR IEXTEN) = 0 \<and>
         Cflag (Raw t) AND PARENB = 0 \<and>
         Cflag (Raw t) AND CSIZE = CS8 \<and>
         Cc (Raw t) ! VMIN = 1 \<and> Cc (Raw t) ! VTIME = 0"
  using Raw_Cc [OF assms] by (simp only: Raw_flags Raw_Cflag)

theorem Raw_postcondition_witness:
  "length (Cc ex_termios) = NCCS \<and>
   Iflag (Raw ex_termios) = 0 \<and> Oflag (Raw ex_termios) = 4 \<and>
   Lflag (Raw ex_termios) = 0xA30 \<and> Cflag (Raw ex_termios) = 0xBF \<and>
   Cc (Raw ex_termios) ! VMIN = 1 \<and> Cc (Raw ex_termios) ! VTIME = 0"
  using Raw_postcondition [of ex_termios]
  by (simp add: Raw_def ex_termios_def flag_defs NCCS_def VMIN_def VTIME_def)

text \<open>
  C3.  After \<open>Cook\<close>, \<open>BRKINT\<close>, \<open>IGNPAR\<close>, \<open>ISTRIP\<close>, \<open>ICRNL\<close> and \<open>IXON\<close> are
  all set in \<open>Iflag\<close>, \<open>OPOST\<close> is set in \<open>Oflag\<close>, and \<open>ISIG\<close> and \<open>ICANON\<close> are
  set in \<open>Lflag\<close>.
\<close>

theorem Cook_postcondition:
  "Iflag (Cook t) AND (BRKINT OR IGNPAR OR ISTRIP OR ICRNL OR IXON)
     = BRKINT OR IGNPAR OR ISTRIP OR ICRNL OR IXON \<and>
   Oflag (Cook t) AND OPOST = OPOST \<and>
   Lflag (Cook t) AND (ISIG OR ICANON) = ISIG OR ICANON"
  by (simp only: Cook_flags)

text \<open>
  C5.  \<open>Raw\<close> is idempotent: applied twice it gives, field for field, the value it
  gives when applied once.
\<close>

theorem Raw_idempotent: "Raw (Raw t) = Raw t"
  by (simp add: Raw_def Raw_idem_Cflag and.assoc list_update_swap [of 6 5] VMIN_def VTIME_def
      del: bit.de_Morgan_disj)

subsection \<open>The SSH codec\<close>

lemma of_be32_be32:
  "of_be32 (ucast (drop_bit 24 v)) (ucast (drop_bit 16 v)) (ucast (drop_bit 8 v)) (ucast v) = (v :: u32)"
  unfolding of_be32_def
proof (rule bit_word_eqI)
  fix n assume "n < LENGTH(32)"
  then have n: "n < 32" by simp
  consider "n < 8" | "8 \<le> n" "n < 16" | "16 \<le> n" "n < 24" | "24 \<le> n"
    by linarith
  then show "bit (push_bit 24 (ucast (ucast (drop_bit 24 v) :: u8) :: u32) OR
                  push_bit 16 (ucast (ucast (drop_bit 16 v) :: u8)) OR
                  push_bit 8 (ucast (ucast (drop_bit 8 v) :: u8)) OR
                  ucast (ucast v :: u8)) n = bit v n"
    using n by cases (auto simp: bit_simps)
qed


lemma parse_pair:
  "op \<noteq> 0 \<Longrightarrow> parse_modes (op # be32 v @ rest) t = parse_modes rest (apply_pair op v t)"
  by (simp add: be32_def of_be32_be32)

lemma parse_encode_pairs:
  "\<forall>(op, v) \<in> set ps. op \<noteq> 0 \<Longrightarrow>
   parse_modes (encode_pairs ps @ rest) t
     = parse_modes rest (fold (\<lambda>(op, v). apply_pair op v) ps t)"
proof (induction ps arbitrary: t)
  case Nil
  then show ?case by (simp add: encode_pairs_def)
next
  case (Cons p ps)
  obtain op v where p: "p = (op, v)" by (cases p)
  with Cons.prems have "op \<noteq> 0" by simp
  moreover have "encode_pairs (p # ps) @ rest = op # be32 v @ (encode_pairs ps @ rest)"
    by (simp add: encode_pairs_def p)
  ultimately show ?case using Cons p by (simp add: parse_pair)
qed

lemma parse_short: "length bs < 5 \<Longrightarrow> parse_modes bs t = t"
  by (induction bs t rule: parse_modes.induct) auto


























text \<open>
  C4.  A mode list cut off after some complete pairs (fewer than five bytes are left: no
  closing opcode, or an opcode with part of its value) is read as those pairs: the result
  is the zero value with the complete pairs applied in order, the same as for the list
  that ends with the closing opcode after them.
\<close>

theorem FromSSH_truncated:
  assumes "\<forall>(op, v) \<in> set ps. op \<noteq> 0" and "length rest < 5"
  shows "FromSSH (encode_pairs ps @ rest) = fold (\<lambda>(op, v). apply_pair op v) ps zero_Termios \<and>
         FromSSH (encode_pairs ps @ rest) = FromSSH (encode_pairs ps @ [0])"
  using assms by (simp add: FromSSH_def parse_encode_pairs parse_short)

theorem FromSSH_truncated_witness:
  "encode_pairs [(53, 1), (128, 19200)] @ [129, 0, 0]
     = [53, 0, 0, 0, 1, 128, 0, 0, 75, 0, 129, 0, 0] \<and>
   FromSSH [53, 0, 0, 0, 1, 128, 0, 0, 75, 0, 129, 0, 0]
     = zero_Termios\<lparr>Lflag := ECHO, Ispeed := 19200\<rparr> \<and>
   FromSSH [53, 0, 0, 0, 1, 128, 0, 0, 75, 0]
     = zero_Termios\<lparr>Lflag := ECHO, Ispeed := 19200\<rparr>"
proof -
  have low: "(19200 :: u8) = 0" by simp
  show ?thesis
    using FromSSH_truncated [of "[(53, 1), (128, 19200)]" "[129, 0, 0]"]
      FromSSH_truncated [of "[(53, 1), (128, 19200)]" "[]"]
    by (simp add: encode_pairs_def be32_def apply_pair_def ssh_table_def zero_Termios_def low)
qed

end
